theory Spec2Isabelle
  imports Complex_Main
begin

section \<open>Planar segments of libIGES: data model\<close>

text \<open>
  The development embeds \<^verbatim>\<open>src/geom/geom_segment.cpp\<close> (class
  \<^verbatim>\<open>IGES_GEOM_SEGMENT\<close>). A C++ \<^verbatim>\<open>double\<close> is idealised as a
  \<^typ>\<open>real\<close>: arithmetic, \<^verbatim>\<open>sqrt\<close> and \<^verbatim>\<open>atan2\<close> are exact
  and \<^verbatim>\<open>M_PI\<close> is \<^term>\<open>pi\<close>. The concrete inputs used below either have
  coordinates and intermediate values that a \<^verbatim>\<open>double\<close> holds exactly, or lie
  far from the thresholds of the code, so that rounding does not change the branch taken
  there.
\<close>

text \<open>
  \<^verbatim>\<open>IGES_POINT\<close>: three coordinates. The fields are called \<open>px\<close>, \<open>py\<close>,
  \<open>pz\<close> here (the source has \<^verbatim>\<open>x\<close>, \<^verbatim>\<open>y\<close>, \<^verbatim>\<open>z\<close>).
\<close>

record IGES_POINT =
  px :: real
  py :: real
  pz :: real

text \<open>
  The segment kinds \<^verbatim>\<open>SEGTYPE_NONE 0\<close>, \<^verbatim>\<open>SEGTYPE_LINE 1\<close>,
  \<^verbatim>\<open>SEGTYPE_ARC 2\<close>, \<^verbatim>\<open>SEGTYPE_CIRCLE 4\<close>; the member
  \<^verbatim>\<open>msegtype\<close> only ever holds one of these four.
\<close>

datatype SEGTYPE = SEGTYPE_NONE | SEGTYPE_LINE | SEGTYPE_ARC | SEGTYPE_CIRCLE

text \<open>
  \<^verbatim>\<open>IGES_INTERSECT_FLAG\<close>, as used by the source file: no flag, this circle
  surrounds the other, this circle is inside the other, tangent, overlap along an edge,
  identical circles.
\<close>

datatype IGES_INTERSECT_FLAG =
    IGES_IFLAG_NONE
  | IGES_IFLAG_ENCIRCLES
  | IGES_IFLAG_INSIDE
  | IGES_IFLAG_TANGENT
  | IGES_IFLAG_EDGE
  | IGES_IFLAG_IDENT

text \<open>The data members of \<^verbatim>\<open>IGES_GEOM_SEGMENT\<close>.\<close>

record IGES_GEOM_SEGMENT =
  msegtype :: SEGTYPE
  mCWArc :: bool
  mradius :: real
  msang :: real
  meang :: real
  mcenter :: IGES_POINT
  mstart :: IGES_POINT
  mend :: IGES_POINT

text \<open>
  Storage that the source reads without having written it: the value of a
  default-constructed \<^verbatim>\<open>IGES_POINT\<close> (its constructor is declared in a header
  outside the source file) and the indeterminate initial contents of the local array
  \<^verbatim>\<open>double ang[2]\<close> of \<^verbatim>\<open>checkArcLine\<close>. They are parameters of the
  model.
\<close>

record UNINIT =
  pdef :: IGES_POINT
  ang_0 :: real
  ang_1 :: real

subsection \<open>Helpers from outside the source file\<close>

text \<open>
  Modelled from the spec: \<^verbatim>\<open>PointMatches\<close> is declared in
  \<^verbatim>\<open>iges_helpers.h\<close>, which is not part of the sources at hand. The spec says
  that point equality is tolerance-based, \<open>|\<Delta>| < \<epsilon>\<close>; it is taken coordinate by
  coordinate.
\<close>

definition PointMatches :: "IGES_POINT \<Rightarrow> IGES_POINT \<Rightarrow> real \<Rightarrow> bool" where
  "PointMatches p1 p2 minRes \<longleftrightarrow>
     \<bar>px p1 - px p2\<bar> < minRes \<and> \<bar>py p1 - py p2\<bar> < minRes \<and> \<bar>pz p1 - pz p2\<bar> < minRes"

text \<open>
  The C library's \<^verbatim>\<open>atan2(y, x)\<close> on reals: the angle of the vector \<open>(x, y)\<close>
  in \<open>(-\<pi>, \<pi>]\<close>, and \<open>0\<close> at the origin.
\<close>

definition atan2 :: "real \<Rightarrow> real \<Rightarrow> real" where
  "atan2 y x =
     (if 0 < x then arctan (y / x)
      else if x < 0 then (if 0 \<le> y then arctan (y / x) + pi else arctan (y / x) - pi)
      else if 0 < y then pi / 2
      else if y < 0 then - (pi / 2)
      else 0)"

section \<open>Construction\<close>

text \<open>\<^verbatim>\<open>init\<close>: every member is overwritten.\<close>

definition init :: "IGES_GEOM_SEGMENT \<Rightarrow> IGES_GEOM_SEGMENT" where
  "init this =
     this\<lparr>msegtype := SEGTYPE_NONE, mCWArc := False, mradius := 0, msang := 0, meang := 0,
          mcenter := (mcenter this)\<lparr>px := 0, py := 0, pz := 0\<rparr>,
          mstart := (mstart this)\<lparr>px := 0, py := 0, pz := 0\<rparr>,
          mend := (mend this)\<lparr>px := 0, py := 0, pz := 0\<rparr>\<rparr>"

text \<open>
  The constructor \<^verbatim>\<open>IGES_GEOM_SEGMENT()\<close> calls \<^verbatim>\<open>init\<close> on the new
  object and nothing else, so a new segment is in the state that \<^verbatim>\<open>init\<close>
  leaves.
\<close>

definition IGES_GEOM_SEGMENT_ctor :: IGES_GEOM_SEGMENT where
  "IGES_GEOM_SEGMENT_ctor =
     \<lparr>msegtype = SEGTYPE_NONE, mCWArc = False, mradius = 0, msang = 0, meang = 0,
      mcenter = \<lparr>px = 0, py = 0, pz = 0\<rparr>, mstart = \<lparr>px = 0, py = 0, pz = 0\<rparr>,
      mend = \<lparr>px = 0, py = 0, pz = 0\<rparr>\<rparr>"

text \<open>
  \<^verbatim>\<open>SetParams(aStart, aEnd)\<close>, the overload for a line. The result is the
  returned flag and the segment after the call.
\<close>

definition SetParams_line ::
  "IGES_GEOM_SEGMENT \<Rightarrow> IGES_POINT \<Rightarrow> IGES_POINT \<Rightarrow> bool \<times> IGES_GEOM_SEGMENT" where
  "SetParams_line this aStart aEnd =
     (let s0 = init this in
      if 0 \<noteq> pz aStart \<or> 0 \<noteq> pz aEnd then (False, s0)
      else if PointMatches aStart aEnd (1 / 10 ^ 8) then (False, s0)
      else (True, s0\<lparr>mstart := aStart, mend := aEnd, msegtype := SEGTYPE_LINE\<rparr>))"

text \<open>
  The loop \<^verbatim>\<open>while( meang < msang ) meang += 2.0 * M_PI;\<close> of the arc overload;
  the result is the final \<^verbatim>\<open>meang\<close>.
\<close>

function while_meang :: "real \<Rightarrow> real \<Rightarrow> real" where
  "while_meang sang eang = (if eang < sang then while_meang sang (eang + 2 * pi) else eang)"
  by pat_completeness auto
termination
proof (relation "measure (\<lambda>(sang, eang). nat \<lceil>(sang - eang) / (2 * pi)\<rceil>)")
  show "wf (measure (\<lambda>(sang, eang). nat \<lceil>(sang - eang) / (2 * pi)\<rceil>))"
    by simp
next
  fix sang eang :: real
  assume lt: "eang < sang"
  have "(sang - (eang + 2 * pi)) / (2 * pi) = (sang - eang) / (2 * pi) - 1"
    by (simp add: field_simps)
  then have step: "\<lceil>(sang - (eang + 2 * pi)) / (2 * pi)\<rceil> = \<lceil>(sang - eang) / (2 * pi)\<rceil> - 1"
    by simp
  from lt have "0 < (sang - eang) / (2 * pi)"
    by simp
  then have "0 < \<lceil>(sang - eang) / (2 * pi)\<rceil>"
    by (simp add: ceiling_less_iff)
  with step show "((sang, eang + 2 * pi), (sang, eang))
      \<in> measure (\<lambda>(sang, eang). nat \<lceil>(sang - eang) / (2 * pi)\<rceil>)"
    by simp
qed

declare while_meang.simps [simp del]

text \<open>
  \<^verbatim>\<open>SetParams(aCenter, aStart, aEnd, isCW)\<close>, the overload for an arc or a
  circle.
\<close>

definition SetParams_arc ::
  "IGES_GEOM_SEGMENT \<Rightarrow> IGES_POINT \<Rightarrow> IGES_POINT \<Rightarrow> IGES_POINT \<Rightarrow> bool
     \<Rightarrow> bool \<times> IGES_GEOM_SEGMENT" where
  "SetParams_arc this aCenter aStart aEnd isCW =
     (let s0 = init this in
      if 0 \<noteq> pz aCenter \<or> 0 \<noteq> pz aStart \<or> 0 \<noteq> pz aEnd then (False, s0)
      else if PointMatches aCenter aStart (1 / 10 ^ 8) \<or> PointMatches aCenter aEnd (1 / 10 ^ 8)
        then (False, s0)
      else
        let dx = px aStart - px aCenter;
            dy = py aStart - py aCenter;
            s1 = s0\<lparr>mradius := sqrt (dx * dx + dy * dy)\<rparr>
        in
        if PointMatches aStart aEnd (1 / 10 ^ 8) then
          let s2 = s1\<lparr>msegtype := SEGTYPE_CIRCLE, mcenter := aCenter\<rparr>;
              s3 = s2\<lparr>mstart := mcenter s2\<rparr>;
              s4 = s3\<lparr>mstart := (mstart s3)\<lparr>px := px (mstart s3) + mradius s3\<rparr>\<rparr>;
              s5 = s4\<lparr>mend := mstart s4\<rparr>
          in (True, s5)
        else
          let dx2 = px aEnd - px aCenter;
              dy2 = py aEnd - py aCenter;
              r2 = sqrt (dx2 * dx2 + dy2 * dy2)
          in
          if \<bar>r2 - mradius s1\<bar> > 1 / 10 ^ 3 then (False, s1\<lparr>mradius := 0\<rparr>)
          else
            let sang = atan2 (py aStart - py aCenter) (px aStart - px aCenter);
                eang = atan2 (py aEnd - py aCenter) (px aEnd - px aCenter);
                sang' = (if isCW then eang else sang);
                eang' = (if isCW then sang else eang);
                eang'' = while_meang sang' eang'
            in (True, s1\<lparr>msang := sang', meang := eang'', mcenter := aCenter,
                          mstart := aStart, mend := aEnd, msegtype := SEGTYPE_ARC,
                          mCWArc := isCW\<rparr>))"

section \<open>Accessors\<close>

definition getSegType :: "IGES_GEOM_SEGMENT \<Rightarrow> SEGTYPE" where
  "getSegType this = msegtype this"

definition getRadius :: "IGES_GEOM_SEGMENT \<Rightarrow> real" where
  "getRadius this = mradius this"

definition getStartAngle :: "IGES_GEOM_SEGMENT \<Rightarrow> real" where
  "getStartAngle this = msang this"

definition getEndAngle :: "IGES_GEOM_SEGMENT \<Rightarrow> real" where
  "getEndAngle this = meang this"

definition getCWArc :: "IGES_GEOM_SEGMENT \<Rightarrow> bool" where
  "getCWArc this = mCWArc this"

definition getCenter :: "IGES_GEOM_SEGMENT \<Rightarrow> IGES_POINT" where
  "getCenter this = mcenter this"

definition getStart :: "IGES_GEOM_SEGMENT \<Rightarrow> IGES_POINT" where
  "getStart this = (if mCWArc this then mend this else mstart this)"

definition getEnd :: "IGES_GEOM_SEGMENT \<Rightarrow> IGES_POINT" where
  "getEnd this = (if mCWArc this then mstart this else mend this)"

section \<open>Intersections\<close>

text \<open>
  \<^verbatim>\<open>calcCircleIntercepts\<close>: the two points written to \<^verbatim>\<open>p1\<close> and
  \<^verbatim>\<open>p2\<close> (all three coordinates of both are assigned).
\<close>

definition calcCircleIntercepts ::
  "IGES_GEOM_SEGMENT \<Rightarrow> IGES_POINT \<Rightarrow> real \<Rightarrow> real \<Rightarrow> IGES_POINT \<times> IGES_POINT" where
  "calcCircleIntercepts this c2 r2 d =
     (let rd = (d * d - r2 * r2 + mradius this * mradius this) / (2 * d);
          dy = py c2 - py (mcenter this);
          dx = px c2 - px (mcenter this);
          x = rd / d * dx + px (mcenter this);
          y = rd / d * dy + py (mcenter this);
          h = sqrt (mradius this * mradius this - rd * rd) / d;
          x0 = x + h * dy;
          y0 = y + h * dx;
          x1 = x - h * dy;
          y1 = y - h * dx;
          a0 = atan2 (y0 - py (mcenter this)) (x0 - px (mcenter this));
          a1 = atan2 (y1 - py (mcenter this)) (x1 - px (mcenter this));
          swap = ((0 \<le> a0 \<and> 0 \<le> a1 \<and> a1 < a0) \<or> (a0 < 0 \<and> a1 < 0 \<and> a1 < a0)
                  \<or> (a0 < 0 \<and> 0 \<le> a1))
      in if swap
         then (\<lparr>px = x1, py = y1, pz = 0\<rparr>, \<lparr>px = x0, py = y0, pz = 0\<rparr>)
         else (\<lparr>px = x0, py = y0, pz = 0\<rparr>, \<lparr>px = x1, py = y1, pz = 0\<rparr>))"

text \<open>
  The \<^verbatim>\<open>check...\<close> functions take the list and the flag as they are at the call
  and return the returned \<^verbatim>\<open>bool\<close>, the list and the flag after the call.
\<close>

definition checkCircles ::
  "IGES_GEOM_SEGMENT \<Rightarrow> IGES_GEOM_SEGMENT \<Rightarrow> IGES_POINT list \<Rightarrow> IGES_INTERSECT_FLAG
     \<Rightarrow> bool \<times> IGES_POINT list \<times> IGES_INTERSECT_FLAG" where
  "checkCircles this aSegment aIntersectList flags =
     (let c2 = getCenter aSegment;
          r2 = getRadius aSegment;
          dx = px (mcenter this) - px c2;
          dy = py (mcenter this) - py c2;
          d = sqrt (dx * dx + dy * dy)
      in
      if d > mradius this + r2 then (False, aIntersectList, flags)
      else if PointMatches (mcenter this) c2 (1 / 10 ^ 3) \<and> \<bar>mradius this - r2\<bar> < 1 / 10 ^ 3
        then (False, aIntersectList, IGES_IFLAG_IDENT)
      else if \<bar>d - mradius this - r2\<bar> < 1 / 10 ^ 3
        then (False, aIntersectList, IGES_IFLAG_TANGENT)
      else
        let two_points =
              (let (p1, p2) = calcCircleIntercepts this c2 r2 d
               in (True, aIntersectList @ [p1, p2], flags))
        in
        if d < mradius this \<or> d < r2 then
          if d \<le> mradius this - r2 then (False, aIntersectList, IGES_IFLAG_ENCIRCLES)
          else if d \<le> r2 - mradius this then (False, aIntersectList, IGES_IFLAG_INSIDE)
          else two_points
        else two_points)"

text \<open>
  \<^verbatim>\<open>checkArcs\<close> and \<^verbatim>\<open>checkLines\<close>: the body of each starts with
  \<^verbatim>\<open>// XXX - TO BE IMPLEMENTED\<close> and \<^verbatim>\<open>return false;\<close> (in
  \<^verbatim>\<open>checkLines\<close> nothing but comments stands between the two); the statements
  that follow the \<^verbatim>\<open>return\<close> in \<^verbatim>\<open>checkArcs\<close> are never executed.
\<close>

definition checkArcs ::
  "IGES_GEOM_SEGMENT \<Rightarrow> IGES_GEOM_SEGMENT \<Rightarrow> IGES_POINT list \<Rightarrow> IGES_INTERSECT_FLAG
     \<Rightarrow> bool \<times> IGES_POINT list \<times> IGES_INTERSECT_FLAG" where
  "checkArcs this aSegment aIntersectList flags = (False, aIntersectList, flags)"

definition checkLines ::
  "IGES_GEOM_SEGMENT \<Rightarrow> IGES_GEOM_SEGMENT \<Rightarrow> IGES_POINT list \<Rightarrow> IGES_INTERSECT_FLAG
     \<Rightarrow> bool \<times> IGES_POINT list \<times> IGES_INTERSECT_FLAG" where
  "checkLines this aSegment aIntersectList flags = (False, aIntersectList, flags)"

text \<open>
  The statements of \<^verbatim>\<open>checkArcs\<close> behind its first \<^verbatim>\<open>return\<close>, up to the
  end of the branch for identical circles: what the function was written to do once that
  \<^verbatim>\<open>return\<close> is gone. The part for circles that differ is commented out in the
  source and returns \<^verbatim>\<open>false\<close>.
\<close>

definition checkArcs_unreachable ::
  "IGES_GEOM_SEGMENT \<Rightarrow> IGES_GEOM_SEGMENT \<Rightarrow> IGES_POINT list \<Rightarrow> IGES_INTERSECT_FLAG
     \<Rightarrow> bool \<times> IGES_POINT list \<times> IGES_INTERSECT_FLAG" where
  "checkArcs_unreachable this aSegment aIntersectList flags =
     (let c2 = getCenter aSegment;
          r2 = getRadius aSegment;
          dx = px (mcenter this) - px c2;
          dy = py (mcenter this) - py c2;
          d = sqrt (dx * dx + dy * dy)
      in
      if d > mradius this + r2 then (False, aIntersectList, flags)
      else if PointMatches (mcenter this) c2 (1 / 10 ^ 3) \<and> \<bar>mradius this - r2\<bar> < 1 / 10 ^ 3
        then
          if SEGTYPE_CIRCLE = msegtype this
            then (True, aIntersectList @ [getStart aSegment, getEnd aSegment], IGES_IFLAG_EDGE)
          else if SEGTYPE_CIRCLE = getSegType aSegment
            then (True, aIntersectList @ [getStart this, getEnd this], IGES_IFLAG_EDGE)
          else
            let a0 = getStartAngle aSegment;
                a1 = getEndAngle aSegment
            in
            if a0 \<ge> msang this \<and> a1 \<le> meang this
              then (True, aIntersectList @ [getStart aSegment, getEnd aSegment], IGES_IFLAG_EDGE)
            else if msang this \<ge> a0 \<and> meang this \<le> a1
              then (True, aIntersectList @ [getStart this, getEnd this], IGES_IFLAG_EDGE)
            else (False, aIntersectList, flags)
      else (False, aIntersectList, flags))"

text \<open>
  \<^verbatim>\<open>checkArcLine\<close>. The local arrays \<^verbatim>\<open>p[2]\<close>, \<^verbatim>\<open>pt[2]\<close> and
  \<^verbatim>\<open>ang[2]\<close> are lists of length two, written by index; \<^verbatim>\<open>p\<close> and
  \<^verbatim>\<open>pt\<close> start as default-constructed points and \<^verbatim>\<open>ang\<close> starts with
  indeterminate contents.
\<close>

definition checkArcLine ::
  "UNINIT \<Rightarrow> IGES_GEOM_SEGMENT \<Rightarrow> IGES_GEOM_SEGMENT \<Rightarrow> IGES_POINT list \<Rightarrow> IGES_INTERSECT_FLAG
     \<Rightarrow> bool \<times> IGES_POINT list \<times> IGES_INTERSECT_FLAG" where
  "checkArcLine U this aSegment aIntersectList flags0 =
     (let thisArc = (SEGTYPE_ARC = msegtype this \<or> SEGTYPE_CIRCLE = msegtype this);
          arcCircle = (if thisArc then SEGTYPE_CIRCLE = msegtype this
                       else SEGTYPE_CIRCLE = getSegType aSegment);
          arcSAng = (if arcCircle then 0
                     else if thisArc then getStartAngle this else getStartAngle aSegment);
          arcEAng = (if arcCircle then 0
                     else if thisArc then getEndAngle this else getEndAngle aSegment);
          arcR = (if thisArc then mradius this else getRadius aSegment);
          arcC = (if thisArc then mcenter this else getCenter aSegment);
          lS = (if thisArc then getStart aSegment else getStart this);
          lE = (if thisArc then getEnd aSegment else getEnd this);
          a0 = px lS * px lS - 2 * px lS * px lE + px lE * px lE;
          b0 = 2 * (px arcC * px lE - px arcC * px lS + px lS * px lE - px lE * px lE);
          c0 = px arcC * px arcC - 2 * px arcC * px lE + px lE * px lE;
          a1 = py lS * py lS - 2 * py lS * py lE + py lE * py lE;
          b1 = 2 * (py arcC * py lE - py arcC * py lS + py lS * py lE - py lE * py lE);
          c1 = py arcC * py arcC - 2 * py arcC * py lE + py lE * py lE;
          A = a0 + a1;
          B = b0 + b1;
          C = c0 + c1 - arcR * arcR;
          D = B * B - 4 * A * C
      in
      if \<bar>D\<bar> < 1 / 10 ^ 3 then (False, aIntersectList, IGES_IFLAG_TANGENT)
      else if D < 0 then (False, aIntersectList, IGES_IFLAG_NONE)
      else
        let t0 = (- B + sqrt D) / (2 * A);
            t1 = (- B - sqrt D) / (2 * A);
            pA = [pdef U, pdef U];
            (pB, npB) =
              (if 0 \<le> t0 \<and> t0 \<le> 1
               then (pA[0 := (pA ! 0)\<lparr>px := t0 * px lS + (1 - t0) * px lE,
                                      py := t0 * py lS + (1 - t0) * py lE\<rparr>], Suc 0)
               else (pA, 0));
            (p, np) =
              (if 0 \<le> t1 \<and> t1 \<le> 1
               then (pB[npB := (pB ! npB)\<lparr>px := t1 * px lS + (1 - t1) * px lE,
                                          py := t1 * py lS + (1 - t1) * py lE\<rparr>], Suc npB)
               else (pB, npB));
            ang = fold (\<lambda>i a. a[i := atan2 (py (p ! i) - py arcC) (px (p ! i) - px arcC)])
                    [0..<np] [ang_0 U, ang_1 U]
        in
        if arcCircle then
          if np = 1 then (True, aIntersectList @ [p ! 0], IGES_IFLAG_NONE)
          else
            let swap = (if 0 \<le> ang ! 0 then 0 \<le> ang ! 1 \<and> ang ! 1 < ang ! 0
                        else 0 \<le> ang ! 1 \<or> ang ! 1 < ang ! 0)
            in if swap then (True, aIntersectList @ [p ! 1, p ! 0], IGES_IFLAG_NONE)
               else (True, aIntersectList @ [p ! 0, p ! 1], IGES_IFLAG_NONE)
        else
          let (pt, np2) =
                fold (\<lambda>i (q, n).
                        if (arcSAng \<le> ang ! i \<and> ang ! i \<le> arcEAng)
                           \<or> (arcSAng \<le> ang ! i + 2 * pi \<and> ang ! i + 2 * pi \<le> arcEAng)
                        then (q[i := p ! i], Suc n) else (q, n))
                  [0..<np] ([pdef U, pdef U], 0 :: nat)
          in
          if np2 = 0 then (False, aIntersectList, IGES_IFLAG_NONE)
          else if np2 = 1 then (True, aIntersectList @ [pt ! 0], IGES_IFLAG_NONE)
          else
            let angB = (if ang ! 0 < arcSAng then ang[0 := ang ! 0 + 2 * pi] else ang);
                angC = (if angB ! 1 < arcSAng then angB[1 := angB ! 1 + 2 * pi] else angB)
            in if angC ! 1 > angC ! 0
               then (True, aIntersectList @ [pt ! 0, pt ! 1], IGES_IFLAG_NONE)
               else (True, aIntersectList @ [pt ! 1, pt ! 0], IGES_IFLAG_NONE))"

text \<open>
  \<^verbatim>\<open>GetIntersections\<close>: the flag is reset first, whatever it was, so the model
  takes no flag.
\<close>

definition GetIntersections ::
  "UNINIT \<Rightarrow> IGES_GEOM_SEGMENT \<Rightarrow> IGES_GEOM_SEGMENT \<Rightarrow> IGES_POINT list
     \<Rightarrow> bool \<times> IGES_POINT list \<times> IGES_INTERSECT_FLAG" where
  "GetIntersections U this aSegment aIntersectList =
     (let flags = IGES_IFLAG_NONE in
      if SEGTYPE_NONE = msegtype this then (False, aIntersectList, flags)
      else
        let oSegType = getSegType aSegment in
        if SEGTYPE_NONE = oSegType then (False, aIntersectList, flags)
        else if SEGTYPE_CIRCLE = msegtype this then
          if SEGTYPE_CIRCLE = oSegType then checkCircles this aSegment aIntersectList flags
          else if SEGTYPE_ARC = oSegType then checkArcs this aSegment aIntersectList flags
          else checkArcLine U this aSegment aIntersectList flags
        else if SEGTYPE_ARC = msegtype this then
          if SEGTYPE_LINE = oSegType then checkArcLine U this aSegment aIntersectList flags
          else checkArcs this aSegment aIntersectList flags
        else if SEGTYPE_LINE = oSegType then checkLines this aSegment aIntersectList flags
        else checkArcLine U this aSegment aIntersectList flags)"

section \<open>Bounding box\<close>

text \<open>
  \<^verbatim>\<open>GetBoundingBox\<close>: \<^verbatim>\<open>p0\<close> and \<^verbatim>\<open>p1\<close> are reference
  parameters, so the model takes the caller's two points and returns them as they are
  after the call. The filled part of the local array \<^verbatim>\<open>m[4]\<close> is a list of
  \<open>(x, y)\<close> pairs (no other coordinate of \<^verbatim>\<open>m[i]\<close> is read), and
  \<^verbatim>\<open>m[ne] = ...; ++ne\<close> appends to it.
\<close>

definition GetBoundingBox ::
  "IGES_GEOM_SEGMENT \<Rightarrow> IGES_POINT \<Rightarrow> IGES_POINT \<Rightarrow> bool \<times> IGES_POINT \<times> IGES_POINT" where
  "GetBoundingBox this p0 p1 =
     (if SEGTYPE_NONE = msegtype this then (False, p0, p1)
      else if SEGTYPE_LINE = msegtype this then
        if \<bar>px (mstart this) - px (mend this)\<bar> < 1 / 10 ^ 8 then
          if py (mstart this) > py (mend this) then (True, mstart this, mend this)
          else (True, mend this, mstart this)
        else
          let (p0a, p1a) =
                (if px (mstart this) < px (mend this)
                 then (p0\<lparr>px := px (mstart this)\<rparr>, p1\<lparr>px := px (mend this)\<rparr>)
                 else (p0\<lparr>px := px (mend this)\<rparr>, p1\<lparr>px := px (mstart this)\<rparr>))
          in
          if py (mstart this) \<ge> py (mend this)
          then (True, p0a\<lparr>py := py (mstart this)\<rparr>, p1a\<lparr>py := py (mend this)\<rparr>)
          else (True, p0a\<lparr>py := py (mend this)\<rparr>, p1a\<lparr>py := py (mstart this)\<rparr>)
      else if SEGTYPE_CIRCLE = msegtype this then
        (True,
         p0\<lparr>px := px (mcenter this) - mradius this, py := py (mcenter this) + mradius this\<rparr>,
         p1\<lparr>px := px (mcenter this) + mradius this, py := py (mcenter this) - mradius this\<rparr>)
      else
        let aS = getStartAngle this;
            aE = getEndAngle this;
            m0 = (if (0 \<ge> aS \<and> 0 \<le> aE) \<or> (2 * pi \<ge> aS \<and> 2 * pi \<le> aE)
                  then [(px (mcenter this) + mradius this, py (mcenter this))] else []);
            m1 = (if (pi * (1 / 2) \<ge> aS \<and> pi * (1 / 2) \<le> aE)
                     \<or> ((5 / 2) * pi \<ge> aS \<and> (5 / 2) * pi \<le> aE)
                  then m0 @ [(px (mcenter this), py (mcenter this) + mradius this)] else m0);
            m2 = (if pi \<ge> aS \<and> pi \<le> aE
                  then m1 @ [(px (mcenter this), py (mcenter this) + mradius this)] else m1);
            m = (if (- (1 / 2) * pi \<ge> aS \<and> - (1 / 2) * pi \<le> aE)
                    \<or> ((3 / 2) * pi \<ge> aS \<and> (3 / 2) * pi \<le> aE)
                 then m2 @ [(px (mcenter this), py (mcenter this) + mradius this)] else m2);
            p0a = (if px (mstart this) < px (mend this) then p0\<lparr>px := px (mstart this)\<rparr>
                   else p0\<lparr>px := px (mend this)\<rparr>);
            p0b = (if py (mstart this) > py (mend this) then p0a\<lparr>py := py (mstart this)\<rparr>
                   else p0a\<lparr>py := py (mend this)\<rparr>);
            (p0c, p1c) =
              fold (\<lambda>(mx, my) (q0, q1).
                      let q0a = (if mx < px q0 then q0\<lparr>px := mx\<rparr> else q0);
                          q1a = (if mx > px q1 then q1\<lparr>px := mx\<rparr> else q1);
                          q0b = (if my > py q0a then q0a\<lparr>py := my\<rparr> else q0a);
                          q1b = (if my < py q1a then q1a\<lparr>py := my\<rparr> else q1a)
                      in (q0b, q1b))
                m (p0b, p1)
        in (True, p0c, p1c))"

section \<open>Concrete data\<close>

text \<open>
  A point of the plane \<open>z = 0\<close>, and one possible content of the storage that the
  source reads unwritten (a default-constructed point with all coordinates zero, zeros in
  \<^verbatim>\<open>ang\<close>); they serve to write down the concrete inputs of the scenarios.
\<close>

definition planar :: "real \<Rightarrow> real \<Rightarrow> IGES_POINT" where
  "planar a b = \<lparr>px = a, py = b, pz = 0\<rparr>"

definition UNINIT_zero :: UNINIT where
  "UNINIT_zero = \<lparr>pdef = \<lparr>px = 0, py = 0, pz = 0\<rparr>, ang_0 = 0, ang_1 = 0\<rparr>"

text \<open>
  \<open>circle_at cx cy r\<close> and \<open>line_from x1 y1 x2 y2\<close> are the segments that a new
  object holds after the calls \<^verbatim>\<open>SetParams(c, s, s, false)\<close> with
  \<open>c = (cx, cy, 0)\<close>, \<open>s = (cx + r, cy, 0)\<close>, and \<^verbatim>\<open>SetParams(s, e)\<close> with
  \<open>s = (x1, y1, 0)\<close>, \<open>e = (x2, y2, 0)\<close>; \<open>arc_of\<close> likewise for
  \<^verbatim>\<open>SetParams(c, s, e, cw)\<close>.
\<close>

definition circle_at :: "real \<Rightarrow> real \<Rightarrow> real \<Rightarrow> IGES_GEOM_SEGMENT" where
  "circle_at cx cy r =
     snd (SetParams_arc IGES_GEOM_SEGMENT_ctor (planar cx cy) (planar (cx + r) cy)
            (planar (cx + r) cy) False)"

definition line_from :: "real \<Rightarrow> real \<Rightarrow> real \<Rightarrow> real \<Rightarrow> IGES_GEOM_SEGMENT" where
  "line_from x1 y1 x2 y2 =
     snd (SetParams_line IGES_GEOM_SEGMENT_ctor (planar x1 y1) (planar x2 y2))"

definition arc_of :: "IGES_POINT \<Rightarrow> IGES_POINT \<Rightarrow> IGES_POINT \<Rightarrow> bool \<Rightarrow> IGES_GEOM_SEGMENT" where
  "arc_of c s e cw = snd (SetParams_arc IGES_GEOM_SEGMENT_ctor c s e cw)"

section \<open>Auxiliary facts\<close>

lemma init_ctor: "init this = IGES_GEOM_SEGMENT_ctor"
  by (simp add: init_def IGES_GEOM_SEGMENT_ctor_def)

lemma while_meang_ge: "sang \<le> while_meang sang eang"
proof (induction sang eang rule: while_meang.induct)
  case (1 sang eang)
  then show ?case
    by (subst while_meang.simps) simp
qed

lemma while_meang_turns: "\<exists>k::nat. while_meang sang eang = eang + 2 * pi * real k"
proof (induction sang eang rule: while_meang.induct)
  case (1 sang eang)
  show ?case
  proof (cases "eang < sang")
    case True
    with 1 obtain k :: nat where "while_meang sang (eang + 2 * pi) = eang + 2 * pi + 2 * pi * real k"
      by blast
    then have "while_meang sang eang = eang + 2 * pi * real (Suc k)"
      using True by (subst while_meang.simps) (simp add: algebra_simps)
    then show ?thesis by blast
  next
    case False
    then have "while_meang sang eang = eang + 2 * pi * real (0::nat)"
      by (subst while_meang.simps) simp
    then show ?thesis by blast
  qed
qed

lemma while_meang_stop: "\<not> eang < sang \<Longrightarrow> while_meang sang eang = eang"
  by (subst while_meang.simps) simp

lemma while_meang_step: "eang < sang \<Longrightarrow> while_meang sang eang = while_meang sang (eang + 2 * pi)"
  by (subst while_meang.simps) simp

lemma radius_pos:
  assumes "\<not> PointMatches c a (1 / 10 ^ 8)" and "pz c = 0" and "pz a = 0"
  shows "0 < sqrt ((px a - px c) * (px a - px c) + (py a - py c) * (py a - py c))"
proof -
  from assms have "px a - px c \<noteq> 0 \<or> py a - py c \<noteq> 0"
    by (auto simp: PointMatches_def)
  then have "0 < (px a - px c) * (px a - px c) + (py a - py c) * (py a - py c)"
    by (metis add_pos_nonneg add_nonneg_pos zero_le_square not_real_square_gt_zero)
  then show ?thesis by simp
qed

lemma circle_constructed:
  fixes this S :: IGES_GEOM_SEGMENT
  assumes "SetParams_arc this c a b w = (True, S)" and "msegtype S = SEGTYPE_CIRCLE"
  shows "mcenter S = c"
    and "mradius S = sqrt ((px a - px c) * (px a - px c) + (py a - py c) * (py a - py c))"
    and "0 < mradius S"
    and "mstart S = c\<lparr>px := px c + mradius S\<rparr>"
    and "mend S = mstart S"
    and "\<not> mCWArc S"
  using assms radius_pos [of c a]
  by (auto simp: SetParams_arc_def Let_def init_ctor IGES_GEOM_SEGMENT_ctor_def split: if_splits)

lemma circle_at_eq:
  assumes "1 / 10 ^ 8 \<le> r"
  shows "SetParams_arc this (planar cx cy) (planar (cx + r) cy) (planar (cx + r) cy) w =
           (True, \<lparr>msegtype = SEGTYPE_CIRCLE, mCWArc = False, mradius = r, msang = 0, meang = 0,
                   mcenter = planar cx cy, mstart = planar (cx + r) cy,
                   mend = planar (cx + r) cy\<rparr>)"
  using assms
  by (simp add: SetParams_arc_def Let_def init_ctor IGES_GEOM_SEGMENT_ctor_def PointMatches_def
      planar_def)

lemma circle_at_simp:
  assumes "1 / 10 ^ 8 \<le> r"
  shows "circle_at cx cy r =
           \<lparr>msegtype = SEGTYPE_CIRCLE, mCWArc = False, mradius = r, msang = 0, meang = 0,
            mcenter = planar cx cy, mstart = planar (cx + r) cy, mend = planar (cx + r) cy\<rparr>"
  by (simp add: circle_at_def circle_at_eq [OF assms])

lemma line_from_eq:
  assumes "1 / 10 ^ 8 \<le> \<bar>x1 - x2\<bar> \<or> 1 / 10 ^ 8 \<le> \<bar>y1 - y2\<bar>"
  shows "SetParams_line this (planar x1 y1) (planar x2 y2) =
           (True, \<lparr>msegtype = SEGTYPE_LINE, mCWArc = False, mradius = 0, msang = 0, meang = 0,
                   mcenter = planar 0 0, mstart = planar x1 y1, mend = planar x2 y2\<rparr>)"
  using assms
  by (auto simp: SetParams_line_def Let_def init_ctor IGES_GEOM_SEGMENT_ctor_def PointMatches_def
      planar_def)

lemma line_from_simp:
  assumes "1 / 10 ^ 8 \<le> \<bar>x1 - x2\<bar> \<or> 1 / 10 ^ 8 \<le> \<bar>y1 - y2\<bar>"
  shows "line_from x1 y1 x2 y2 =
           \<lparr>msegtype = SEGTYPE_LINE, mCWArc = False, mradius = 0, msang = 0, meang = 0,
            mcenter = planar 0 0, mstart = planar x1 y1, mend = planar x2 y2\<rparr>"
  by (simp add: line_from_def line_from_eq [OF assms])

lemma sqrt_eqI: "0 \<le> d \<Longrightarrow> d * d = a \<Longrightarrow> sqrt a = (d::real)"
  by (rule real_sqrt_unique) (simp_all add: power2_eq_square)

lemma atan2_nonneg_iff: "0 \<le> atan2 y x \<longleftrightarrow> 0 \<le> y"
proof -
  have b: "- (pi / 2) < arctan (y / x)" "arctan (y / x) < pi / 2"
    by (rule arctan_lbound, rule arctan_ubound)
  consider "0 < x" | "x < 0" "0 \<le> y" | "x < 0" "y < 0" | "x = 0"
    by linarith
  then show ?thesis
  proof cases
    case 1
    then show ?thesis by (simp add: atan2_def zero_le_divide_iff)
  next
    case 2
    with b show ?thesis by (simp add: atan2_def)
  next
    case 3
    with b show ?thesis by (simp add: atan2_def)
  next
    case 4
    have "\<not> pi \<le> 0"
      using pi_gt_zero by linarith
    with 4 show ?thesis by (simp add: atan2_def)
  qed
qed

lemma atan2_neg_iff: "atan2 y x < 0 \<longleftrightarrow> y < 0"
  using atan2_nonneg_iff [of y x] by linarith


lemma sqrt_25: "sqrt (25::real) = 5"
  by (rule sqrt_eqI) simp_all

lemma sqrt_36: "sqrt (36::real) = 6"
  by (rule sqrt_eqI) simp_all


lemma sqrt_400: "sqrt (400::real) = 20"
  by (rule sqrt_eqI) simp_all

lemma sqrt_40000: "sqrt (40000::real) = 200"
  by (rule sqrt_eqI) simp_all

lemma pi_not_le_0: "\<not> pi \<le> 0"
  using pi_gt_zero by linarith

lemma half_arc:
  "SetParams_arc IGES_GEOM_SEGMENT_ctor (planar 0 0) (planar 5 0) (planar (- 5) 0) False =
     (True, \<lparr>msegtype = SEGTYPE_ARC, mCWArc = False, mradius = 5, msang = 0, meang = pi,
             mcenter = planar 0 0, mstart = planar 5 0, mend = planar (- 5) 0\<rparr>)"
proof -
  have "while_meang 0 pi = pi"
    by (rule while_meang_stop) (simp add: pi_not_le_0 not_less)
  then show ?thesis
    by (simp add: SetParams_arc_def Let_def init_ctor IGES_GEOM_SEGMENT_ctor_def
        PointMatches_def planar_def sqrt_25 atan2_def)
qed

lemma west_arc:
  "SetParams_arc IGES_GEOM_SEGMENT_ctor (planar 0 0) (planar (- 3) 4) (planar (- 3) (- 4)) False =
     (True, \<lparr>msegtype = SEGTYPE_ARC, mCWArc = False, mradius = 5,
             msang = pi - arctan (4 / 3), meang = pi + arctan (4 / 3),
             mcenter = planar 0 0, mstart = planar (- 3) 4, mend = planar (- 3) (- 4)\<rparr>)"
proof -
  have b: "0 < arctan (4 / 3 :: real)" "arctan (4 / 3 :: real) < pi / 2"
    by (simp, rule arctan_ubound)
  have "while_meang (pi - arctan (4 / 3)) (arctan (4 / 3) - pi)
          = while_meang (pi - arctan (4 / 3)) (arctan (4 / 3) - pi + 2 * pi)"
    by (rule while_meang_step) (use b in linarith)
  also have "\<dots> = arctan (4 / 3) - pi + 2 * pi"
    by (rule while_meang_stop) (use b in linarith)
  finally have w: "while_meang (pi - arctan (4 / 3)) (arctan (4 / 3) - pi) = pi + arctan (4 / 3)"
    by simp
  have s: "atan2 4 (- 3) = pi - arctan (4 / 3)" and e: "atan2 (- 4) (- 3) = arctan (4 / 3) - pi"
    by (simp_all add: atan2_def arctan_minus)
  show ?thesis
    by (simp add: SetParams_arc_def Let_def init_ctor IGES_GEOM_SEGMENT_ctor_def
        PointMatches_def planar_def sqrt_25 s e w)
qed

lemma half_arc_simp:
  "arc_of (planar 0 0) (planar 5 0) (planar (- 5) 0) False =
     \<lparr>msegtype = SEGTYPE_ARC, mCWArc = False, mradius = 5, msang = 0, meang = pi,
      mcenter = planar 0 0, mstart = planar 5 0, mend = planar (- 5) 0\<rparr>"
  by (simp add: arc_of_def half_arc)

section \<open>Construction: the claims\<close>

text \<open>
  Claim C9. When either \<^verbatim>\<open>SetParams\<close> overload returns \<^verbatim>\<open>false\<close>, the
  segment is left in the state of a new object (kind \<^verbatim>\<open>SEGTYPE_NONE\<close>, radius
  \<open>0\<close>, angles \<open>0\<close>, all points zero), whatever it held before the call. The
  overloads fail exactly on a non-zero \<open>z\<close> coordinate, on points that match within
  \<open>10\<^sup>-\<^sup>8\<close> where they must differ, and, for an arc proper, on radii that differ by
  more than \<open>10\<^sup>-\<^sup>3\<close>.
\<close>

theorem SetParams_failure_unset:
  "(\<not> fst (SetParams_line this aStart aEnd) \<longrightarrow>
      snd (SetParams_line this aStart aEnd) = IGES_GEOM_SEGMENT_ctor)
   \<and> (\<not> fst (SetParams_arc this aCenter aStart' aEnd' isCW) \<longrightarrow>
        snd (SetParams_arc this aCenter aStart' aEnd' isCW) = IGES_GEOM_SEGMENT_ctor)
   \<and> (\<not> fst (SetParams_line this aStart aEnd) \<longleftrightarrow>
        pz aStart \<noteq> 0 \<or> pz aEnd \<noteq> 0 \<or> PointMatches aStart aEnd (1 / 10 ^ 8))
   \<and> (\<not> fst (SetParams_arc this aCenter aStart' aEnd' isCW) \<longleftrightarrow>
        pz aCenter \<noteq> 0 \<or> pz aStart' \<noteq> 0 \<or> pz aEnd' \<noteq> 0
        \<or> PointMatches aCenter aStart' (1 / 10 ^ 8) \<or> PointMatches aCenter aEnd' (1 / 10 ^ 8)
        \<or> (\<not> PointMatches aStart' aEnd' (1 / 10 ^ 8)
            \<and> 1 / 10 ^ 3 <
                \<bar>sqrt ((px aEnd' - px aCenter)\<^sup>2 + (py aEnd' - py aCenter)\<^sup>2)
                 - sqrt ((px aStart' - px aCenter)\<^sup>2 + (py aStart' - py aCenter)\<^sup>2)\<bar>))"
  by (auto simp: SetParams_line_def SetParams_arc_def Let_def init_ctor IGES_GEOM_SEGMENT_ctor_def
      power2_eq_square)

theorem SetParams_failure_unset_witness:
  "\<not> fst (SetParams_line (line_from 0 0 10 0) (planar 1 2) (planar 1 2))
   \<and> snd (SetParams_line (line_from 0 0 10 0) (planar 1 2) (planar 1 2)) = IGES_GEOM_SEGMENT_ctor
   \<and> \<not> fst (SetParams_arc (line_from 0 0 10 0) (planar 0 0) (planar 1 0) (planar 0 2) False)
   \<and> snd (SetParams_arc (line_from 0 0 10 0) (planar 0 0) (planar 1 0) (planar 0 2) False) =
       IGES_GEOM_SEGMENT_ctor
   \<and> line_from 0 0 10 0 \<noteq> IGES_GEOM_SEGMENT_ctor"
proof -
  have f1: "\<not> fst (SetParams_line (line_from 0 0 10 0) (planar 1 2) (planar 1 2))"
    by (simp add: SetParams_line_def PointMatches_def planar_def)
  have f2: "\<not> fst (SetParams_arc (line_from 0 0 10 0) (planar 0 0) (planar 1 0) (planar 0 2) False)"
    by (simp add: SetParams_arc_def PointMatches_def Let_def planar_def)
  have f3: "line_from 0 0 10 0 \<noteq> IGES_GEOM_SEGMENT_ctor"
    by (simp add: line_from_simp IGES_GEOM_SEGMENT_ctor_def)
  from f1 f2 f3
    SetParams_failure_unset [of "line_from 0 0 10 0" "planar 1 2" "planar 1 2"
      "planar 0 0" "planar 1 0" "planar 0 2" False]
  show ?thesis by blast
qed

text \<open>
  Claim C10. For a successfully constructed arc the stored points are the ones given,
  \<^verbatim>\<open>getStart\<close> and \<^verbatim>\<open>getEnd\<close> exchange them exactly when the arc was
  given as clockwise, and the pair they return is in counterclockwise order: the start
  angle is the angle of \<^verbatim>\<open>getStart()\<close> about the centre, the end angle is the
  angle of \<^verbatim>\<open>getEnd()\<close> plus a number of full turns, and it is not below the start
  angle.
\<close>

theorem arc_accessors_ccw:
  fixes this seg :: IGES_GEOM_SEGMENT
  assumes "SetParams_arc this aCenter aStart aEnd isCW = (True, seg)"
    and "msegtype seg = SEGTYPE_ARC"
  shows "mstart seg = aStart \<and> mend seg = aEnd
       \<and> getStart seg = (if isCW then mend seg else mstart seg)
       \<and> getEnd seg = (if isCW then mstart seg else mend seg)
       \<and> getStartAngle seg =
           atan2 (py (getStart seg) - py aCenter) (px (getStart seg) - px aCenter)
       \<and> getStartAngle seg \<le> getEndAngle seg
       \<and> (\<exists>k::nat. getEndAngle seg =
             atan2 (py (getEnd seg) - py aCenter) (px (getEnd seg) - px aCenter)
               + 2 * pi * real k)"
  using assms while_meang_ge while_meang_turns
  by (auto simp: SetParams_arc_def Let_def getStart_def getEnd_def getStartAngle_def
      getEndAngle_def split: if_splits)

lemma arc_quarter_cw:
  "SetParams_arc IGES_GEOM_SEGMENT_ctor (planar 0 0) (planar 1 0) (planar 0 1) True =
     (True, arc_of (planar 0 0) (planar 1 0) (planar 0 1) True)
   \<and> msegtype (arc_of (planar 0 0) (planar 1 0) (planar 0 1) True) = SEGTYPE_ARC"
  by (simp add: arc_of_def SetParams_arc_def Let_def PointMatches_def planar_def)

theorem arc_accessors_ccw_witness:
  "SetParams_arc IGES_GEOM_SEGMENT_ctor (planar 0 0) (planar 1 0) (planar 0 1) True =
     (True, arc_of (planar 0 0) (planar 1 0) (planar 0 1) True)
   \<and> msegtype (arc_of (planar 0 0) (planar 1 0) (planar 0 1) True) = SEGTYPE_ARC
   \<and> getStart (arc_of (planar 0 0) (planar 1 0) (planar 0 1) True) = planar 0 1
   \<and> getEnd (arc_of (planar 0 0) (planar 1 0) (planar 0 1) True) = planar 1 0"
  using arc_quarter_cw
    arc_accessors_ccw [of IGES_GEOM_SEGMENT_ctor "planar 0 0" "planar 1 0" "planar 0 1" True
      "arc_of (planar 0 0) (planar 1 0) (planar 0 1) True"]
  by simp

text \<open>
  Claim C7. The arc overload of \<^verbatim>\<open>SetParams\<close>, given planar points with the
  centre distinct from start and end and with start and end equal within \<open>10\<^sup>-\<^sup>8\<close>,
  succeeds and makes the segment a circle whose radius is the distance from the centre to
  the start point and whose stored start and end are both the centre moved by the radius
  along \<open>x\<close>.
\<close>

theorem SetParams_arc_circle:
  assumes "pz aCenter = 0" and "pz aStart = 0" and "pz aEnd = 0"
    and "\<not> PointMatches aCenter aStart (1 / 10 ^ 8)"
    and "\<not> PointMatches aCenter aEnd (1 / 10 ^ 8)"
    and "PointMatches aStart aEnd (1 / 10 ^ 8)"
  shows "fst (SetParams_arc this aCenter aStart aEnd isCW)
       \<and> msegtype (snd (SetParams_arc this aCenter aStart aEnd isCW)) = SEGTYPE_CIRCLE
       \<and> mradius (snd (SetParams_arc this aCenter aStart aEnd isCW)) =
           sqrt ((px aStart - px aCenter)\<^sup>2 + (py aStart - py aCenter)\<^sup>2
                 + (pz aStart - pz aCenter)\<^sup>2)
       \<and> mcenter (snd (SetParams_arc this aCenter aStart aEnd isCW)) = aCenter
       \<and> mstart (snd (SetParams_arc this aCenter aStart aEnd isCW)) =
           \<lparr>px = px aCenter + mradius (snd (SetParams_arc this aCenter aStart aEnd isCW)),
            py = py aCenter, pz = 0\<rparr>
       \<and> mend (snd (SetParams_arc this aCenter aStart aEnd isCW)) =
           \<lparr>px = px aCenter + mradius (snd (SetParams_arc this aCenter aStart aEnd isCW)),
            py = py aCenter, pz = 0\<rparr>"
  using assms
  by (simp add: SetParams_arc_def Let_def power2_eq_square)

theorem SetParams_arc_circle_witness:
  "pz (planar 1 1) = 0 \<and> pz (planar 4 5) = 0
   \<and> \<not> PointMatches (planar 1 1) (planar 4 5) (1 / 10 ^ 8)
   \<and> PointMatches (planar 4 5) (planar 4 5) (1 / 10 ^ 8)
   \<and> fst (SetParams_arc (line_from 0 0 10 0) (planar 1 1) (planar 4 5) (planar 4 5) True)
   \<and> msegtype (snd (SetParams_arc (line_from 0 0 10 0) (planar 1 1) (planar 4 5) (planar 4 5) True))
       = SEGTYPE_CIRCLE
   \<and> mradius (snd (SetParams_arc (line_from 0 0 10 0) (planar 1 1) (planar 4 5) (planar 4 5) True))
       = 5
   \<and> mstart (snd (SetParams_arc (line_from 0 0 10 0) (planar 1 1) (planar 4 5) (planar 4 5) True))
       = planar 6 1
   \<and> mend (snd (SetParams_arc (line_from 0 0 10 0) (planar 1 1) (planar 4 5) (planar 4 5) True))
       = planar 6 1"
proof -
  have s: "sqrt (25::real) = 5"
    by (rule real_sqrt_unique) simp_all
  have h: "pz (planar 1 1) = 0" "pz (planar 4 5) = 0"
    "\<not> PointMatches (planar 1 1) (planar 4 5) (1 / 10 ^ 8)"
    "PointMatches (planar 4 5) (planar 4 5) (1 / 10 ^ 8)"
    by (simp_all add: planar_def PointMatches_def)
  from SetParams_arc_circle [OF h(1) h(2) h(2) h(3) h(3) h(4), of "line_from 0 0 10 0" True] h s
  show ?thesis
    by (simp add: planar_def)
qed

section \<open>Intersections: the claims\<close>




text \<open>
  Claim C2 says that the two points returned for properly intersecting circles lie on
  both circles. The code offsets the foot of the radical line by \<open>(h \<sqdot> dy, h \<sqdot> dx)\<close>,
  which is perpendicular to the line of centres only when \<open>dx \<sqdot> dy = 0\<close>. For the
  circles of radius \<open>13/2\<close> about \<open>(0, 0)\<close> and \<open>(3, 4)\<close> it returns
  \<open>(63/10, 28/5)\<close> and \<open>(-33/10, -8/5)\<close>; the first is not at distance \<open>13/2\<close> from
  the first centre.
\<close>

theorem circle_intercepts_off_circle:
  "msegtype (circle_at 0 0 (13 / 2)) = SEGTYPE_CIRCLE
   \<and> msegtype (circle_at 3 4 (13 / 2)) = SEGTYPE_CIRCLE
   \<and> GetIntersections UNINIT_zero (circle_at 0 0 (13 / 2)) (circle_at 3 4 (13 / 2)) [] =
       (True, [planar (63 / 10) (28 / 5), planar (- (33 / 10)) (- (8 / 5))], IGES_IFLAG_NONE)
   \<and> (63 / 10 - px (mcenter (circle_at 0 0 (13 / 2))))\<^sup>2
        + (28 / 5 - py (mcenter (circle_at 0 0 (13 / 2))))\<^sup>2
       \<noteq> (mradius (circle_at 0 0 (13 / 2)))\<^sup>2"
  by (simp add: GetIntersections_def checkCircles_def calcCircleIntercepts_def getSegType_def
      getCenter_def getRadius_def circle_at_simp planar_def PointMatches_def Let_def
      sqrt_25 sqrt_36 atan2_nonneg_iff atan2_neg_iff power2_eq_square)

lemma circle_line_inside_two_points:
  "GetIntersections U (circle_at 0 0 5) (line_from (- 1) 0 1 0) [] =
     (True, [pdef U, pdef U], IGES_IFLAG_NONE)"
  by (simp add: GetIntersections_def checkArcLine_def getSegType_def getStart_def getEnd_def
      line_from_simp circle_at_simp planar_def Let_def sqrt_400)

lemma arc_line_second_root_lost:
  "GetIntersections U (arc_of (planar 0 0) (planar 5 0) (planar (- 5) 0) False)
     (line_from 0 (- 10) 0 10) [] = (True, [pdef U], IGES_IFLAG_NONE)"
  apply (simp add: GetIntersections_def  getSegType_def half_arc_simp line_from_simp)
  apply (simp add: checkArcLine_def getSegType_def getStart_def getEnd_def
        getStartAngle_def getEndAngle_def planar_def sqrt_40000 Let_def)
  apply (simp add: atan2_def pi_not_le_0)
  done

text \<open>
  Claim C3 says that for an arc or circle against a line only the roots with
  \<open>t \<in> [0, 1]\<close> that lie on the arc are returned. Two evaluations of the code: a
  circle of radius 5 about the origin against the line from \<open>(-1, 0)\<close> to \<open>(1, 0)\<close>,
  whose roots are \<open>t = 3\<close> and \<open>t = -2\<close>, succeeds with two default-constructed
  points; the upper half arc of that circle against the line from \<open>(0, -10)\<close> to
  \<open>(0, 10)\<close>, where only the second root \<open>(0, 5)\<close> lies on the arc, returns one
  default-constructed point instead of it.
\<close>

theorem arc_line_points_wrong:
  "msegtype (circle_at 0 0 5) = SEGTYPE_CIRCLE
   \<and> msegtype (line_from (- 1) 0 1 0) = SEGTYPE_LINE
   \<and> GetIntersections U (circle_at 0 0 5) (line_from (- 1) 0 1 0) [] =
       (True, [pdef U, pdef U], IGES_IFLAG_NONE)
   \<and> msegtype (arc_of (planar 0 0) (planar 5 0) (planar (- 5) 0) False) = SEGTYPE_ARC
   \<and> msegtype (line_from 0 (- 10) 0 10) = SEGTYPE_LINE
   \<and> GetIntersections U (arc_of (planar 0 0) (planar 5 0) (planar (- 5) 0) False)
         (line_from 0 (- 10) 0 10) [] = (True, [pdef U], IGES_IFLAG_NONE)"
  using circle_line_inside_two_points arc_line_second_root_lost
  by (simp add: circle_at_simp line_from_simp half_arc_simp)

text \<open>
  Claim C4 says that two crossing lines yield their intersection point. In scenario S1,
  the line from \<open>(0, 0)\<close> to \<open>(10, 0)\<close> against the line from \<open>(5, -5)\<close> to
  \<open>(5, 5)\<close>, the code returns \<^verbatim>\<open>false\<close> and no point: \<^verbatim>\<open>checkLines\<close> is
  not implemented.
\<close>

theorem lines_cross_not_found:
  "msegtype (line_from 0 0 10 0) = SEGTYPE_LINE
   \<and> msegtype (line_from 5 (- 5) 5 5) = SEGTYPE_LINE
   \<and> GetIntersections U (line_from 0 0 10 0) (line_from 5 (- 5) 5 5) [] =
       (False, [], IGES_IFLAG_NONE)"
  by (simp add: GetIntersections_def checkLines_def getSegType_def line_from_simp)

text \<open>
  Claim C5 says that an arc against a circle with the same centre and radius reports
  \<^verbatim>\<open>IGES_IFLAG_EDGE\<close> with the arc's end points. The code returns \<^verbatim>\<open>false\<close>,
  no point and no flag, because \<^verbatim>\<open>checkArcs\<close> returns at its first statement; the
  statements behind that \<^verbatim>\<open>return\<close> would report what the claim says.
\<close>

theorem coincident_arc_circle_not_reported:
  "msegtype (circle_at 0 0 5) = SEGTYPE_CIRCLE
   \<and> msegtype (arc_of (planar 0 0) (planar 5 0) (planar (- 5) 0) False) = SEGTYPE_ARC
   \<and> GetIntersections U (circle_at 0 0 5)
         (arc_of (planar 0 0) (planar 5 0) (planar (- 5) 0) False) []
     = (False, [], IGES_IFLAG_NONE)
   \<and> checkArcs_unreachable (circle_at 0 0 5)
         (arc_of (planar 0 0) (planar 5 0) (planar (- 5) 0) False) [] IGES_IFLAG_NONE
     = (True, [planar 5 0, planar (- 5) 0], IGES_IFLAG_EDGE)"
  unfolding half_arc_simp
  by (simp add: GetIntersections_def checkArcs_def checkArcs_unreachable_def getSegType_def
        getCenter_def getRadius_def getStart_def getEnd_def circle_at_simp PointMatches_def
        planar_def)

text \<open>
  Claim C6, as the code has it: a successfully constructed circle intersected with itself
  reports \<^verbatim>\<open>IGES_IFLAG_IDENT\<close> (and no points).
\<close>

theorem circle_self_coincident:
  fixes this S :: IGES_GEOM_SEGMENT
  assumes "SetParams_arc this c a b w = (True, S)" and "msegtype S = SEGTYPE_CIRCLE"
  shows "GetIntersections U S S lst = (False, lst, IGES_IFLAG_IDENT)"
proof -
  have "0 < mradius S"
    using circle_constructed(3) [OF assms] .
  then show ?thesis
    using assms(2)
    by (simp add: GetIntersections_def checkCircles_def getSegType_def getCenter_def
        getRadius_def PointMatches_def)
qed

theorem circle_self_coincident_witness:
  "SetParams_arc IGES_GEOM_SEGMENT_ctor (planar 0 0) (planar 5 0) (planar 5 0) False
     = (True, circle_at 0 0 5)
   \<and> msegtype (circle_at 0 0 5) = SEGTYPE_CIRCLE
   \<and> GetIntersections UNINIT_zero (circle_at 0 0 5) (circle_at 0 0 5) [] =
       (False, [], IGES_IFLAG_IDENT)"
proof -
  have a: "SetParams_arc IGES_GEOM_SEGMENT_ctor (planar 0 0) (planar 5 0) (planar 5 0) False
             = (True, circle_at 0 0 5)"
    using circle_at_eq [where r = 5 and cx = 0 and cy = 0]
    by (simp add: circle_at_simp)
  have t: "msegtype (circle_at 0 0 5) = SEGTYPE_CIRCLE"
    by (simp add: circle_at_simp)
  from circle_self_coincident [OF a t] a t show ?thesis
    by simp
qed

text \<open>
  Claim C6 as stated covers every kind of segment. It fails for a line: the line from
  \<open>(0, 0)\<close> to \<open>(10, 0)\<close> intersected with itself reports no flag.
\<close>

theorem line_self_counterexample:
  "msegtype (line_from 0 0 10 0) = SEGTYPE_LINE
   \<and> GetIntersections UNINIT_zero (line_from 0 0 10 0) (line_from 0 0 10 0) [] =
       (False, [], IGES_IFLAG_NONE)
   \<and> snd (snd (GetIntersections UNINIT_zero (line_from 0 0 10 0) (line_from 0 0 10 0) []))
       \<noteq> IGES_IFLAG_IDENT"
  by (simp add: GetIntersections_def checkLines_def getSegType_def line_from_simp)

section \<open>Bounding box: the claim\<close>

text \<open>
  Claim C8 says that the bounding box of an arc contains its end points and the axis
  extrema of the circle that lie on the arc. For the arc of radius 5 about the origin
  from \<open>(-3, 4)\<close> counterclockwise to \<open>(-3, -4)\<close>, which passes through
  \<open>(-5, 0)\<close>, the code returns the top-left corner \<open>(-3, 5)\<close> instead of
  \<open>(-5, 4)\<close>, and it leaves a bottom-right corner \<open>(0, 0)\<close> of the caller as it is,
  although the arc ends at \<open>(-3, -4)\<close>.
\<close>

theorem arc_bounding_box_misses:
  "msegtype (arc_of (planar 0 0) (planar (- 3) 4) (planar (- 3) (- 4)) False) = SEGTYPE_ARC
   \<and> fst (snd (GetBoundingBox (arc_of (planar 0 0) (planar (- 3) 4) (planar (- 3) (- 4)) False) p0 p1))
     = p0\<lparr>px := - 3, py := 5\<rparr>
   \<and> snd (snd (GetBoundingBox (arc_of (planar 0 0) (planar (- 3) 4) (planar (- 3) (- 4)) False) p0
              (planar 0 0))) = planar 0 0"
proof -
  define a :: real where "a = arctan (4 / 3)"
  have b: "0 < a" "a < pi / 2"
    unfolding a_def by (simp, rule arctan_ubound)
  have arc: "arc_of (planar 0 0) (planar (- 3) 4) (planar (- 3) (- 4)) False =
      \<lparr>msegtype = SEGTYPE_ARC, mCWArc = False, mradius = 5, msang = pi - a, meang = pi + a,
       mcenter = planar 0 0, mstart = planar (- 3) 4, mend = planar (- 3) (- 4)\<rparr>"
    by (simp add: arc_of_def west_arc a_def)
  show ?thesis
    unfolding arc
    using b pi_gt_zero
    by (simp add: GetBoundingBox_def getStartAngle_def getEndAngle_def planar_def Let_def)
qed

end
